theory Spec2Isabelle
  imports Complex_Main "HOL-Library.Multiset"
begin

section \<open>JavaScript values used by app.js\<close>

text \<open>
  A request field (a query parameter or a property of the JSON body) is a string or is
  absent: \<open>None\<close> stands for \<^verbatim>\<open>undefined\<close> and \<^verbatim>\<open>null\<close>.
  \<open>falsy\<close> is the test \<^verbatim>\<open>!x\<close>: absent fields and the empty string are falsy.
\<close>

type_synonym field = "string option"

definition falsy :: "field \<Rightarrow> bool" where
  "falsy v = (case v of None \<Rightarrow> True | Some s \<Rightarrow> s = [])"

definition str :: "field \<Rightarrow> string" where
  "str v = (case v of None \<Rightarrow> [] | Some s \<Rightarrow> s)"

text \<open>
  The numbers the handlers compute are integer valued or \<^verbatim>\<open>NaN\<close>. A JavaScript number is
  an IEEE 754 double: an integer of more than 53 significant bits is rounded to the
  nearest double, ties to even. \<open>round53\<close> is that rounding on integers (magnitudes
  below \<open>2^1024\<close>, where no overflow to \<^verbatim>\<open>Infinity\<close> happens).
\<close>

datatype jsnum = NaN | Num int

fun bit_length :: "nat \<Rightarrow> nat" where
  "bit_length n = (if n = 0 then 0 else Suc (bit_length (n div 2)))"

definition round53 :: "int \<Rightarrow> int" where
  "round53 n =
     (let a = nat \<bar>n\<bar>; k = bit_length a in
      if k \<le> 53 then n
      else
        let e = k - 53; q = a div 2 ^ e; r = a mod 2 ^ e; h = 2 ^ (e - 1);
            q' = (if h < r \<or> (r = h \<and> odd q) then q + 1 else q)
        in sgn n * int (q' * 2 ^ e))"

fun js_mul :: "jsnum \<Rightarrow> jsnum \<Rightarrow> jsnum" where
  "js_mul (Num a) (Num b) = Num (round53 (a * b))"
| "js_mul _ _ = NaN"

text \<open>
  \<^verbatim>\<open>Number(x || 0)\<close> and \<^verbatim>\<open>Number(x)\<close> on a nullable integer column: both give 0 on
  \<^verbatim>\<open>null\<close>, and the stored integer as a double otherwise.
\<close>

definition Number_or_0 :: "int option \<Rightarrow> jsnum" where
  "Number_or_0 x = (case x of None \<Rightarrow> Num 0 | Some p \<Rightarrow> Num (round53 p))"

text \<open>Decimal digits, and ASCII case mapping for \<^verbatim>\<open>toLowerCase\<close> and \<^verbatim>\<open>toUpperCase\<close>.\<close>

definition digit_val :: "char \<Rightarrow> nat option" where
  "digit_val c =
     (let n = (of_char c :: nat) in if 48 \<le> n \<and> n \<le> 57 then Some (n - 48) else None)"

fun digits_acc :: "nat \<Rightarrow> string \<Rightarrow> nat option" where
  "digits_acc acc [] = Some acc"
| "digits_acc acc (c # cs) =
     (case digit_val c of None \<Rightarrow> None | Some d \<Rightarrow> digits_acc (10 * acc + d) cs)"

fun show_nat :: "nat \<Rightarrow> string" where
  "show_nat n =
     (if n < 10 then [''0123456789'' ! n]
      else show_nat (n div 10) @ [''0123456789'' ! (n mod 10)])"

definition lower_char :: "char \<Rightarrow> char" where
  "lower_char c =
     (case map_of (zip ''ABCDEFGHIJKLMNOPQRSTUVWXYZ'' ''abcdefghijklmnopqrstuvwxyz'') c of
        None \<Rightarrow> c
      | Some c' \<Rightarrow> c')"

definition upper_char :: "char \<Rightarrow> char" where
  "upper_char c =
     (case map_of (zip ''abcdefghijklmnopqrstuvwxyz'' ''ABCDEFGHIJKLMNOPQRSTUVWXYZ'') c of
        None \<Rightarrow> c
      | Some c' \<Rightarrow> c')"

definition toLowerCase :: "string \<Rightarrow> string" where
  "toLowerCase s = map lower_char s"

definition toUpperCase :: "string \<Rightarrow> string" where
  "toUpperCase s = map upper_char s"

text \<open>
  \<^verbatim>\<open>(amountCents / 100).toFixed(2)\<close>: the amount in major units with two decimals.
  The division and the rendering are floating point in the source; on amounts of
  magnitude below \<open>2^52\<close> the double nearest to the quotient renders as the exact
  decimal, which is what this function writes. \<^verbatim>\<open>NaN\<close> renders as the text NaN.
\<close>

definition cents_toFixed2 :: "jsnum \<Rightarrow> string" where
  "cents_toFixed2 x =
     (case x of
        NaN \<Rightarrow> ''NaN''
      | Num n \<Rightarrow>
          (let a = nat \<bar>n\<bar> in
           (if n < 0 then ''-'' else []) @ show_nat (a div 100) @ ''.'' @
           show_nat (a mod 100 div 10) @ show_nat (a mod 10)))"

section \<open>Dates\<close>

text \<open>
  The routes document dates as \<^verbatim>\<open>YYYY-MM-DD\<close>, and a request may carry any string.
  \<open>split_on\<close> cuts a string at a separator; \<open>num_field lo hi\<close> reads a field of \<open>lo\<close>
  to \<open>hi\<close> decimal digits; \<open>ymd_of\<close> puts year, month and day together when all three
  were read. \<open>days_from_civil\<close> is the day number of a proleptic Gregorian date,
  counted from 1970-01-01.
\<close>

fun split_on :: "char \<Rightarrow> string \<Rightarrow> string list" where
  "split_on c [] = [[]]"
| "split_on c (x # xs) =
     (if x = c then [] # split_on c xs
      else (case split_on c xs of [] \<Rightarrow> [[x]] | w # ws \<Rightarrow> (x # w) # ws))"

definition num_field :: "nat \<Rightarrow> nat \<Rightarrow> string \<Rightarrow> int option" where
  "num_field lo hi w =
     (if lo \<le> length w \<and> length w \<le> hi
      then (case digits_acc 0 w of None \<Rightarrow> None | Some n \<Rightarrow> Some (int n))
      else None)"

definition ymd_of :: "int option \<Rightarrow> int option \<Rightarrow> int option \<Rightarrow> (int \<times> int \<times> int) option" where
  "ymd_of y m d =
     (case y of
        None \<Rightarrow> None
      | Some yn \<Rightarrow>
          (case m of
             None \<Rightarrow> None
           | Some mn \<Rightarrow> (case d of None \<Rightarrow> None | Some dn \<Rightarrow> Some (yn, mn, dn))))"

text \<open>
  The date-only forms of the ECMAScript date-time string, which is what may stand before
  the \<^verbatim>\<open>T\<close> of \<^verbatim>\<open>`${s}T00:00:00.000Z`\<close>: \<^verbatim>\<open>YYYY\<close>, \<^verbatim>\<open>YYYY-MM\<close> and
  \<^verbatim>\<open>YYYY-MM-DD\<close>, a missing month or day being 1. Years of six digits with a sign are
  not modelled.
\<close>

definition js_ymd :: "string \<Rightarrow> (int \<times> int \<times> int) option" where
  "js_ymd s =
     (case split_on CHR ''-'' s of
        [y] \<Rightarrow> ymd_of (num_field 4 4 y) (Some 1) (Some 1)
      | [y, m] \<Rightarrow> ymd_of (num_field 4 4 y) (num_field 2 2 m) (Some 1)
      | [y, m, d] \<Rightarrow> ymd_of (num_field 4 4 y) (num_field 2 2 m) (num_field 2 2 d)
      | _ \<Rightarrow> None)"

text \<open>
  The spellings of a date that the database reads among those made of digits and
  hyphens: \<^verbatim>\<open>YYYY-M-D\<close> with a month and a day of one or two digits, and
  \<^verbatim>\<open>YYYYMMDD\<close>. What else the database reads (month names, \<^verbatim>\<open>today\<close>,
  \<^verbatim>\<open>infinity\<close>, other separators, years of other lengths, a time after the date) is
  not modelled.
\<close>

definition pg_ymd :: "string \<Rightarrow> (int \<times> int \<times> int) option" where
  "pg_ymd s =
     (case split_on CHR ''-'' s of
        [w] \<Rightarrow>
          if length w = 8
          then ymd_of (num_field 4 4 (take 4 w)) (num_field 2 2 (take 2 (drop 4 w)))
                 (num_field 2 2 (drop 6 w))
          else None
      | [y, m, d] \<Rightarrow> ymd_of (num_field 4 4 y) (num_field 1 2 m) (num_field 1 2 d)
      | _ \<Rightarrow> None)"

definition days_from_civil :: "int \<Rightarrow> int \<Rightarrow> int \<Rightarrow> int" where
  "days_from_civil y m d =
     (let y' = (if m \<le> 2 then y - 1 else y);
          era = y' div 400;
          yoe = y' - era * 400;
          doy = (153 * (if 2 < m then m - 3 else m + 9) + 2) div 5 + d - 1;
          doe = yoe * 365 + yoe div 4 - yoe div 100 + doy
      in era * 146097 + doe - 719468)"

text \<open>
  \<^verbatim>\<open>toDate = (s) => new Date(`${s}T00:00:00.000Z`)\<close>. The result is used only through
  its time value (by \<^verbatim>\<open><=\<close> and by \<^verbatim>\<open>-\<close>): milliseconds since the epoch, or
  \<^verbatim>\<open>NaN\<close> for an Invalid Date, here \<open>None\<close>. The engine takes a month from 01 to 12
  and a day from 01 to 31 and lets the day run over into the next month. A string that
  is none of the date-only forms is an Invalid Date.
\<close>

definition toDate :: "string \<Rightarrow> int option" where
  "toDate s =
     (case js_ymd s of
        None \<Rightarrow> None
      | Some (y, m, d) \<Rightarrow>
          if 1 \<le> m \<and> m \<le> 12 \<and> 1 \<le> d \<and> d \<le> 31
          then Some (86400000 * days_from_civil y m d) else None)"

text \<open>Comparison of two time values with \<^verbatim>\<open><=\<close>: false as soon as one is \<^verbatim>\<open>NaN\<close>.\<close>

definition date_le :: "int option \<Rightarrow> int option \<Rightarrow> bool" where
  "date_le x y = (case x of None \<Rightarrow> False | Some a \<Rightarrow> (case y of None \<Rightarrow> False | Some b \<Rightarrow> a \<le> b))"

text \<open>
  \<^verbatim>\<open>nightsBetween = (a, b) => Math.ceil((toDate(b) - toDate(a)) / 86400000)\<close>.
  Time values are multiples of 86400000 below \<open>2^53\<close>, so the double arithmetic of the
  source is exact here and the ceiling is written on integers.
\<close>

definition ceil_div :: "int \<Rightarrow> int \<Rightarrow> int" where
  "ceil_div x d = - ((- x) div d)"

definition nightsBetween :: "string \<Rightarrow> string \<Rightarrow> jsnum" where
  "nightsBetween a b =
     (case toDate a of
        None \<Rightarrow> NaN
      | Some ta \<Rightarrow> (case toDate b of None \<Rightarrow> NaN | Some tb \<Rightarrow> Num (ceil_div (tb - ta) 86400000)))"

text \<open>
  A date parameter as the database reads it when it compares it with a \<^verbatim>\<open>date\<close>
  column: a day number, or an error (\<open>None\<close>) for a string that is none of the
  spellings above or names no day of the calendar.
\<close>

definition days_in_month :: "int \<Rightarrow> int \<Rightarrow> int" where
  "days_in_month y m =
     (if m = 2 then (if y mod 4 = 0 \<and> (y mod 100 \<noteq> 0 \<or> y mod 400 = 0) then 29 else 28)
      else if m = 4 \<or> m = 6 \<or> m = 9 \<or> m = 11 then 30 else 31)"

definition pgDate :: "string \<Rightarrow> int option" where
  "pgDate s =
     (case pg_ymd s of
        None \<Rightarrow> None
      | Some (y, m, d) \<Rightarrow>
          if 1 \<le> y \<and> 1 \<le> m \<and> m \<le> 12 \<and> 1 \<le> d \<and> d \<le> days_in_month y m
          then Some (days_from_civil y m d) else None)"

section \<open>The store\<close>

text \<open>
  The two tables app.js reads and writes. A row of \<^verbatim>\<open>properties\<close> has the columns that
  \<^verbatim>\<open>getProperty\<close> selects; currency and price may be \<^verbatim>\<open>null\<close>. A row of
  \<^verbatim>\<open>reservations\<close> has the columns of the insert statement and its generated id; dates
  are day numbers. \<open>reservations\<close> holds the committed rows, \<open>next_id\<close> the sequence
  behind \<^verbatim>\<open>returning id\<close> (a sequence is not rolled back).
\<close>

record property =
  prop_id :: string
  slug :: string
  name :: string
  currency :: "string option"
  price_per_night_cents :: "int option"

record reservation =
  res_id :: nat
  res_property_id :: string
  res_checkin :: int
  res_checkout :: int
  res_guests :: int
  res_email :: string
  status :: string

record db =
  properties :: "property list"
  reservations :: "reservation list"
  next_id :: nat

text \<open>
  What a handler does to its collaborators, in order: statements sent through the pool,
  statements sent on the client checked out by \<^verbatim>\<open>pool.connect()\<close>, and the call of
  the payment gateway.
\<close>

datatype stmt =
    SelectPropertyById
  | SelectPropertyBySlug
  | SelectOccupied
  | SelectConflicts
  | Begin
  | InsertReservation
  | Commit
  | Rollback

record session =
  unit_amount :: jsnum
  session_currency :: string
  customer_email :: string
  product_name :: string
  description_nights :: jsnum
  meta_reservation_id :: nat
  meta_property_id :: string
  meta_property_slug :: string
  meta_checkin :: string
  meta_checkout :: string

datatype event =
    Connect
  | PoolQuery stmt
  | ClientQuery stmt
  | StripeCreate session
  | Release

text \<open>
  The gateway is a parameter: \<^verbatim>\<open>stripe.checkout.sessions.create\<close> either throws
  (\<open>Inl\<close> the message of the error) or returns a session (\<open>Inr\<close> its url).
  A \<open>session\<close> records what the call is given; the description and the success and
  cancel urls of the source are strings built from these fields.
\<close>

type_synonym gateway = "session \<Rightarrow> string + string"

section \<open>Responses\<close>

record prop_view =
  view_id :: string
  view_slug :: string
  view_name :: string

record occupied_row =
  occ_id :: nat
  occ_checkin :: int
  occ_checkout :: int
  occ_status :: string

record quote_body =
  quote_property :: prop_view
  quote_checkin :: string
  quote_checkout :: string
  quote_nights :: jsnum
  quote_currency :: string
  quote_price_per_night_cents :: jsnum
  total_cents :: jsnum
  total_formatted :: string

record created_body =
  reservation_id :: nat
  checkout_url :: string
  amount_cents :: jsnum
  created_currency :: string

datatype payload =
    Failure string
  | AvailabilityOk prop_view "string \<times> string" "occupied_row list"
  | QuoteOk quote_body
  | CheckoutOk created_body

text \<open>A response is the HTTP status and the JSON body.\<close>

type_synonym response = "nat \<times> payload"

text \<open>\<^verbatim>\<open>bad = (msg) => ({ ok: false, error: msg })\<close>\<close>

definition bad :: "string \<Rightarrow> payload" where
  "bad msg = Failure msg"

definition view_of :: "property \<Rightarrow> prop_view" where
  "view_of p = \<lparr>view_id = prop_id p, view_slug = slug p, view_name = name p\<rparr>"

section \<open>getProperty\<close>

text \<open>
  \<^verbatim>\<open>getProperty({ id, slug })\<close>: no query when both keys are falsy; otherwise one select,
  by id when the id is truthy and by slug when it is not, and the first row or
  \<^verbatim>\<open>null\<close>.
\<close>

definition getProperty :: "db \<Rightarrow> field \<Rightarrow> field \<Rightarrow> property option \<times> event list" where
  "getProperty d i s =
     (if falsy i \<and> falsy s then (None, [])
      else if \<not> falsy i
        then (find (\<lambda>p. prop_id p = str i) (properties d), [PoolQuery SelectPropertyById])
        else (find (\<lambda>p. slug p = str s) (properties d), [PoolQuery SelectPropertyBySlug]))"

section \<open>GET /availability\<close>

text \<open>
  The where clause shared by the availability query and the conflict query:
  \<^verbatim>\<open>property_id = $1 and status in ('pending','paid') and
  not (checkout <= $2 or checkin >= $3)\<close>.
\<close>

definition blocks :: "string \<Rightarrow> int \<Rightarrow> int \<Rightarrow> reservation \<Rightarrow> bool" where
  "blocks pid a b r =
     (res_property_id r = pid \<and> (status r = ''pending'' \<or> status r = ''paid'') \<and>
      \<not> (res_checkout r \<le> a \<or> res_checkin r \<ge> b))"

definition date_error :: string where
  "date_error = ''invalid input syntax for type date''"

definition select_occupied ::
  "reservation list \<Rightarrow> string \<Rightarrow> string \<Rightarrow> string \<Rightarrow> string + reservation list" where
  "select_occupied rows pid from to =
     (case pgDate from of
        None \<Rightarrow> Inl date_error
      | Some a \<Rightarrow>
          (case pgDate to of
             None \<Rightarrow> Inl date_error
           | Some b \<Rightarrow> Inr (sort_key res_checkin (filter (blocks pid a b) rows))))"

definition occupied_of :: "reservation \<Rightarrow> occupied_row" where
  "occupied_of r =
     \<lparr>occ_id = res_id r, occ_checkin = res_checkin r, occ_checkout = res_checkout r,
      occ_status = status r\<rparr>"

record availability_query =
  query_property_slug :: field
  query_property_id :: field
  query_from :: field
  query_to :: field

definition get_availability :: "db \<Rightarrow> availability_query \<Rightarrow> response \<times> event list" where
  "get_availability d q =
     (if falsy (query_from q) \<or> falsy (query_to q) then ((400, bad ''from/to mancanti''), [])
      else
        (case getProperty d (query_property_id q) (query_property_slug q) of
           (None, t) \<Rightarrow> ((404, bad ''property non trovata''), t)
         | (Some prop, t) \<Rightarrow>
             (case select_occupied (reservations d) (prop_id prop)
                     (str (query_from q)) (str (query_to q)) of
                Inl e \<Rightarrow> ((500, bad e), t @ [PoolQuery SelectOccupied])
              | Inr rows \<Rightarrow>
                  ((200, AvailabilityOk (view_of prop) (str (query_from q), str (query_to q))
                           (map occupied_of rows)),
                   t @ [PoolQuery SelectOccupied]))))"

section \<open>POST /quote\<close>

record body =
  property_slug :: field
  property_id :: field
  checkin :: field
  checkout :: field
  email :: field
  guests :: "int option"

definition currency_or_EUR :: "property \<Rightarrow> string" where
  "currency_or_EUR p = (if falsy (currency p) then ''EUR'' else str (currency p))"

definition post_quote :: "db \<Rightarrow> body \<Rightarrow> response \<times> event list" where
  "post_quote d b =
     (if falsy (checkin b) \<or> falsy (checkout b)
        then ((400, bad ''checkin/checkout mancanti''), [])
      else if date_le (toDate (str (checkout b))) (toDate (str (checkin b)))
        then ((400, bad ''checkout deve essere > checkin''), [])
      else
        (case getProperty d (property_id b) (property_slug b) of
           (None, t) \<Rightarrow> ((404, bad ''property non trovata''), t)
         | (Some prop, t) \<Rightarrow>
             (let nights = nightsBetween (str (checkin b)) (str (checkout b));
                  amountCents = js_mul nights (Number_or_0 (price_per_night_cents prop))
              in ((200, QuoteOk
                     \<lparr>quote_property = view_of prop,
                      quote_checkin = str (checkin b),
                      quote_checkout = str (checkout b),
                      quote_nights = nights,
                      quote_currency = currency_or_EUR prop,
                      quote_price_per_night_cents = Number_or_0 (price_per_night_cents prop),
                      total_cents = amountCents,
                      total_formatted = cents_toFixed2 amountCents @ '' '' @ currency_or_EUR prop\<rparr>),
                  t))))"

section \<open>POST /checkout\<close>

text \<open>
  The handler awaits the conflict query, then \<^verbatim>\<open>BEGIN\<close> and the insert, then the gateway
  and \<^verbatim>\<open>COMMIT\<close> or \<^verbatim>\<open>ROLLBACK\<close>. It is written as these three parts, so that one
  attempt can be run alone (\<open>post_checkout\<close>) or interleaved with others (\<open>run\<close> below).
  A \<open>booking\<close> holds the local variables that live across the parts. The only
  statements that throw in this model are those given a string that is no date; a lost
  connection or a failing \<^verbatim>\<open>COMMIT\<close> is not modelled.
\<close>

record booking =
  bk_prop :: property
  bk_checkin :: string
  bk_checkout :: string
  bk_guests :: int
  bk_email :: string
  bk_nights :: jsnum
  bk_amountCents :: jsnum
  bk_currency :: string

definition select_conflicts ::
  "reservation list \<Rightarrow> string \<Rightarrow> string \<Rightarrow> string \<Rightarrow> string + nat" where
  "select_conflicts rows pid ci co =
     (case pgDate ci of
        None \<Rightarrow> Inl date_error
      | Some a \<Rightarrow>
          (case pgDate co of
             None \<Rightarrow> Inl date_error
           | Some b \<Rightarrow> Inr (length (filter (blocks pid a b) rows))))"

text \<open>
  From \<^verbatim>\<open>pool.connect()\<close> to the computation of amount and currency. The conflict query
  runs on the client, before any \<^verbatim>\<open>BEGIN\<close>: it reads the committed rows. An early
  \<^verbatim>\<open>return\<close> goes through \<^verbatim>\<open>finally\<close> (release); a query that throws goes through
  \<^verbatim>\<open>catch\<close> (rollback, 500) and \<^verbatim>\<open>finally\<close>.
\<close>

definition checkout_check :: "db \<Rightarrow> body \<Rightarrow> (response + booking) \<times> event list" where
  "checkout_check d b =
     (if falsy (email b) then (Inl (400, bad ''email mancante''), [Connect, Release])
      else if falsy (checkin b) \<or> falsy (checkout b)
        then (Inl (400, bad ''checkin/checkout mancanti''), [Connect, Release])
      else if date_le (toDate (str (checkout b))) (toDate (str (checkin b)))
        then (Inl (400, bad ''checkout deve essere > checkin''), [Connect, Release])
      else
        (case getProperty d (property_id b) (property_slug b) of
           (None, t) \<Rightarrow> (Inl (404, bad ''property non trovata''), Connect # t @ [Release])
         | (Some prop, t) \<Rightarrow>
             (case select_conflicts (reservations d) (prop_id prop)
                     (str (checkin b)) (str (checkout b)) of
                Inl e \<Rightarrow>
                  (Inl (500, bad e),
                   Connect # t @ [ClientQuery SelectConflicts, ClientQuery Rollback, Release])
              | Inr n \<Rightarrow>
                  if 0 < n
                  then (Inl (409, bad ''date non disponibili''),
                        Connect # t @ [ClientQuery SelectConflicts, Release])
                  else
                    (let nights = nightsBetween (str (checkin b)) (str (checkout b));
                         amountCents = js_mul nights (Number_or_0 (price_per_night_cents prop))
                     in (Inr \<lparr>bk_prop = prop,
                              bk_checkin = str (checkin b),
                              bk_checkout = str (checkout b),
                              bk_guests = (case guests b of None \<Rightarrow> 1 | Some g \<Rightarrow> g),
                              bk_email = str (email b),
                              bk_nights = nights,
                              bk_amountCents = amountCents,
                              bk_currency = toLowerCase (currency_or_EUR prop)\<rparr>,
                         Connect # t @ [ClientQuery SelectConflicts])))))"

text \<open>
  \<^verbatim>\<open>BEGIN\<close> and the insert. The new row belongs to the open transaction: it is handed
  to the next part and is not among the committed rows.
\<close>

definition checkout_insert :: "db \<Rightarrow> booking \<Rightarrow> (response + reservation) \<times> db \<times> event list" where
  "checkout_insert d bk =
     (case pgDate (bk_checkin bk) of
        None \<Rightarrow>
          (Inl (500, bad date_error), d,
           [ClientQuery Begin, ClientQuery InsertReservation, ClientQuery Rollback, Release])
      | Some a \<Rightarrow>
          (case pgDate (bk_checkout bk) of
             None \<Rightarrow>
               (Inl (500, bad date_error), d,
                [ClientQuery Begin, ClientQuery InsertReservation, ClientQuery Rollback, Release])
           | Some c \<Rightarrow>
               (Inr \<lparr>res_id = next_id d,
                     res_property_id = prop_id (bk_prop bk),
                     res_checkin = a,
                     res_checkout = c,
                     res_guests = bk_guests bk,
                     res_email = bk_email bk,
                     status = ''pending''\<rparr>,
                d\<lparr>next_id := Suc (next_id d)\<rparr>,
                [ClientQuery Begin, ClientQuery InsertReservation])))"

text \<open>
  The gateway call, then \<^verbatim>\<open>COMMIT\<close> and 201, or (the call threw) \<^verbatim>\<open>ROLLBACK\<close> and 500
  with the message of the error. Commit makes the row of the transaction a committed row.
\<close>

definition session_of :: "booking \<Rightarrow> reservation \<Rightarrow> session" where
  "session_of bk row =
     \<lparr>unit_amount = bk_amountCents bk,
      session_currency = bk_currency bk,
      customer_email = bk_email bk,
      product_name = ''Soggiorno: '' @ name (bk_prop bk),
      description_nights = bk_nights bk,
      meta_reservation_id = res_id row,
      meta_property_id = prop_id (bk_prop bk),
      meta_property_slug = slug (bk_prop bk),
      meta_checkin = bk_checkin bk,
      meta_checkout = bk_checkout bk\<rparr>"

definition checkout_pay ::
  "gateway \<Rightarrow> db \<Rightarrow> booking \<Rightarrow> reservation \<Rightarrow> response \<times> db \<times> event list" where
  "checkout_pay gw d bk row =
     (case gw (session_of bk row) of
        Inr url \<Rightarrow>
          ((201, CheckoutOk \<lparr>reservation_id = res_id row, checkout_url = url,
                             amount_cents = bk_amountCents bk,
                             created_currency = toUpperCase (bk_currency bk)\<rparr>),
           d\<lparr>reservations := reservations d @ [row]\<rparr>,
           [StripeCreate (session_of bk row), ClientQuery Commit, Release])
      | Inl msg \<Rightarrow>
          ((500, bad msg), d,
           [StripeCreate (session_of bk row), ClientQuery Rollback, Release]))"

definition post_checkout :: "gateway \<Rightarrow> db \<Rightarrow> body \<Rightarrow> response \<times> db \<times> event list" where
  "post_checkout gw d b =
     (case checkout_check d b of
        (Inl r, t1) \<Rightarrow> (r, d, t1)
      | (Inr bk, t1) \<Rightarrow>
          (case checkout_insert d bk of
             (Inl r, d1, t2) \<Rightarrow> (r, d1, t1 @ t2)
           | (Inr row, d1, t2) \<Rightarrow>
               (case checkout_pay gw d1 bk row of (r, d2, t3) \<Rightarrow> (r, d2, t1 @ t2 @ t3))))"

section \<open>Concurrent attempts\<close>

text \<open>
  Requests are handled concurrently: while one handler awaits a query or the gateway,
  another runs. An attempt is at one of the await points between the three parts; a
  schedule names which attempt moves next. The store is shared; the row inserted by an
  open transaction stays with its attempt until commit, as under read committed
  isolation, the default of the database.
\<close>

datatype attempt =
    Ready body
  | Checked booking
  | Inserted booking reservation
  | Done response

fun step :: "gateway \<Rightarrow> attempt \<Rightarrow> db \<Rightarrow> attempt \<times> db" where
  "step gw (Ready b) d =
     (case fst (checkout_check d b) of Inl r \<Rightarrow> (Done r, d) | Inr bk \<Rightarrow> (Checked bk, d))"
| "step gw (Checked bk) d =
     (case checkout_insert d bk of
        (Inl r, d1, t) \<Rightarrow> (Done r, d1)
      | (Inr row, d1, t) \<Rightarrow> (Inserted bk row, d1))"
| "step gw (Inserted bk row) d =
     (case checkout_pay gw d bk row of (r, d1, t) \<Rightarrow> (Done r, d1))"
| "step gw (Done r) d = (Done r, d)"

fun run :: "gateway \<Rightarrow> nat list \<Rightarrow> attempt list \<Rightarrow> db \<Rightarrow> attempt list \<times> db" where
  "run gw [] as d = (as, d)"
| "run gw (i # sched) as d =
     (if i < length as
      then (case step gw (as ! i) d of (a, d1) \<Rightarrow> run gw sched (as[i := a]) d1)
      else run gw sched as d)"

text \<open>
  The invariant of the reservations table: no two rows of one property, both pending or
  paid, have overlapping ranges.
\<close>

definition clash :: "reservation \<Rightarrow> reservation \<Rightarrow> bool" where
  "clash r r' =
     (res_property_id r = res_property_id r' \<and>
      (status r = ''pending'' \<or> status r = ''paid'') \<and>
      (status r' = ''pending'' \<or> status r' = ''paid'') \<and>
      \<not> (res_checkout r \<le> res_checkin r' \<or> res_checkout r' \<le> res_checkin r))"

fun double_booked :: "reservation list \<Rightarrow> bool" where
  "double_booked [] = False"
| "double_booked (r # rs) = (list_ex (clash r) rs \<or> double_booked rs)"

section \<open>Notions of the specification\<close>

text \<open>
  The overlap test in the words of the specification: two ranges \<open>[a1,a2)\<close> and
  \<open>[b1,b2)\<close> overlap iff not (\<open>a2 \<le> b1\<close> or \<open>a1 \<ge> b2\<close>).
\<close>

definition ranges_overlap :: "int \<Rightarrow> int \<Rightarrow> int \<Rightarrow> int \<Rightarrow> bool" where
  "ranges_overlap a1 a2 b1 b2 = (\<not> (a2 \<le> b1 \<or> a1 \<ge> b2))"

definition active :: "reservation \<Rightarrow> bool" where
  "active r = (status r = ''pending'' \<or> status r = ''paid'')"

text \<open>
  Two readings of where the conflict query stands in a trace. \<open>checks_in_tx\<close>: every
  conflict query is sent while a transaction is open (after a \<^verbatim>\<open>BEGIN\<close> that is not yet
  committed or rolled back). \<open>checks_before_tx\<close>: no conflict query follows a
  \<^verbatim>\<open>BEGIN\<close>.
\<close>

fun checks_in_tx :: "bool \<Rightarrow> event list \<Rightarrow> bool" where
  "checks_in_tx opn [] = True"
| "checks_in_tx opn (e # es) =
     (if e = ClientQuery Begin then checks_in_tx True es
      else if e = ClientQuery Commit \<or> e = ClientQuery Rollback then checks_in_tx False es
      else if e = ClientQuery SelectConflicts then opn \<and> checks_in_tx opn es
      else checks_in_tx opn es)"

fun checks_before_tx :: "event list \<Rightarrow> bool" where
  "checks_before_tx [] = True"
| "checks_before_tx (e # es) =
     (if e = ClientQuery Begin then ClientQuery SelectConflicts \<notin> set es
      else checks_before_tx es)"

text \<open>Statements that read or write the reservations table, and the reading statements.\<close>

definition on_reservations :: "event \<Rightarrow> bool" where
  "on_reservations e =
     (e = PoolQuery SelectOccupied \<or> e = ClientQuery SelectConflicts \<or>
      e = ClientQuery InsertReservation)"

definition is_select :: "event \<Rightarrow> bool" where
  "is_select e =
     (e = PoolQuery SelectPropertyById \<or> e = PoolQuery SelectPropertyBySlug \<or>
      e = PoolQuery SelectOccupied)"

definition quoted :: "response \<Rightarrow> quote_body option" where
  "quoted r = (case snd r of QuoteOk q \<Rightarrow> Some q | _ \<Rightarrow> None)"

definition status_of :: "attempt \<Rightarrow> nat option" where
  "status_of a = (case a of Done r \<Rightarrow> Some (fst r) | _ \<Rightarrow> None)"

section \<open>Example data\<close>

definition villa :: property where
  "villa = \<lparr>prop_id = ''p1'', slug = ''villa-x'', name = ''Villa X'',
            currency = Some ''EUR'', price_per_night_cents = Some 10000\<rparr>"

definition db0 :: db where
  "db0 = \<lparr>properties = [villa], reservations = [], next_id = 1\<rparr>"

definition june_1_4 :: body where
  "june_1_4 =
     \<lparr>property_slug = Some ''villa-x'', property_id = None,
      checkin = Some ''2024-06-01'', checkout = Some ''2024-06-04'',
      email = Some ''ada@example.org'', guests = None\<rparr>"

definition june_3_5 :: body where
  "june_3_5 =
     \<lparr>property_slug = Some ''villa-x'', property_id = None,
      checkin = Some ''2024-06-03'', checkout = Some ''2024-06-05'',
      email = Some ''bob@example.org'', guests = Some 2\<rparr>"

definition gw_ok :: gateway where
  "gw_ok s = Inr ''https://pay.example/s''"

definition gw_down :: gateway where
  "gw_down s = Inl ''gateway unavailable''"

definition costly :: property where
  "costly = \<lparr>prop_id = ''p2'', slug = ''palace'', name = ''Palace'',
             currency = None, price_per_night_cents = Some 9007199254740993\<rparr>"

definition db_costly :: db where
  "db_costly = \<lparr>properties = [costly], reservations = [], next_id = 1\<rparr>"

definition one_night :: body where
  "one_night =
     \<lparr>property_slug = Some ''palace'', property_id = None,
      checkin = Some ''2024-06-01'', checkout = Some ''2024-06-02'',
      email = Some ''ada@example.org'', guests = None\<rparr>"

definition same_day :: body where
  "same_day =
     \<lparr>property_slug = Some ''no-such-place'', property_id = None,
      checkin = Some ''2024-06-05'', checkout = Some ''2024-06-05'',
      email = Some ''ada@example.org'', guests = None\<rparr>"

definition free_stay :: property where
  "free_stay = \<lparr>prop_id = ''p3'', slug = ''hut'', name = ''Hut'',
                currency = None, price_per_night_cents = None\<rparr>"

definition booked :: reservation where
  "booked = \<lparr>res_id = 7, res_property_id = ''p1'', res_checkin = 19875, res_checkout = 19878,
             res_guests = 2, res_email = ''eve@example.org'', status = ''paid''\<rparr>"

definition db1 :: db where
  "db1 = \<lparr>properties = [villa, free_stay], reservations = [booked], next_id = 8\<rparr>"

definition hut_stay :: body where
  "hut_stay =
     \<lparr>property_slug = Some ''villa-x'', property_id = Some ''p3'',
      checkin = Some ''2024-06-01'', checkout = Some ''2024-06-04'',
      email = Some ''ada@example.org'', guests = None\<rparr>"

definition soon_stay :: body where
  "soon_stay =
     \<lparr>property_slug = Some ''villa-x'', property_id = None,
      checkin = Some ''soon'', checkout = Some ''soon'',
      email = Some ''ada@example.org'', guests = None\<rparr>"

definition unpadded_day :: body where
  "unpadded_day =
     \<lparr>property_slug = Some ''villa-x'', property_id = None,
      checkin = Some ''2024-6-5'', checkout = Some ''2024-6-5'',
      email = Some ''ada@example.org'', guests = None\<rparr>"

definition june_query :: availability_query where
  "june_query =
     \<lparr>query_property_slug = Some ''villa-x'', query_property_id = None,
      query_from = Some ''2024-06-01'', query_to = Some ''2024-06-30''\<rparr>"

definition ada_booking :: booking where
  "ada_booking =
     \<lparr>bk_prop = villa, bk_checkin = ''2024-06-01'', bk_checkout = ''2024-06-04'',
      bk_guests = 1, bk_email = ''ada@example.org'', bk_nights = Num 3,
      bk_amountCents = Num 30000, bk_currency = ''eur''\<rparr>"

definition ada_row :: reservation where
  "ada_row =
     \<lparr>res_id = 1, res_property_id = ''p1'', res_checkin = 19875, res_checkout = 19878,
      res_guests = 1, res_email = ''ada@example.org'', status = ''pending''\<rparr>"

definition bob_row :: reservation where
  "bob_row =
     \<lparr>res_id = 2, res_property_id = ''p1'', res_checkin = 19877, res_checkout = 19879,
      res_guests = 2, res_email = ''bob@example.org'', status = ''pending''\<rparr>"

declare bit_length.simps [simp del]
declare show_nat.simps [simp del]

section \<open>Evaluation\<close>

text \<open>The definitions that the simplifier unfolds to run a handler on the example data.\<close>

lemmas eval_defs =
  falsy_def str_def toDate_def pgDate_def js_ymd_def pg_ymd_def num_field_def ymd_of_def
  digit_val_def days_from_civil_def
  days_in_month_def date_le_def nightsBetween_def ceil_div_def getProperty_def bad_def
  view_of_def currency_or_EUR_def Number_or_0_def blocks_def select_conflicts_def
  select_occupied_def occupied_of_def session_of_def toLowerCase_def toUpperCase_def
  lower_char_def upper_char_def round53_def bit_length.simps show_nat.simps cents_toFixed2_def
  Let_def

lemmas handler_defs =
  post_quote_def get_availability_def post_checkout_def checkout_check_def checkout_insert_def
  checkout_pay_def

lemmas example_defs =
  villa_def db0_def june_1_4_def june_3_5_def gw_ok_def gw_down_def costly_def db_costly_def
  one_night_def same_day_def free_stay_def booked_def db1_def hut_stay_def june_query_def
  soon_stay_def unpadded_day_def
  ada_booking_def ada_row_def bob_row_def

lemma ada_trace:
  "post_checkout gw_ok db0 june_1_4 =
     ((201, CheckoutOk \<lparr>reservation_id = 1, checkout_url = ''https://pay.example/s'',
                        amount_cents = Num 30000, created_currency = ''EUR''\<rparr>),
      \<lparr>properties = [villa], reservations = [ada_row], next_id = 2\<rparr>,
      [Connect, PoolQuery SelectPropertyBySlug, ClientQuery SelectConflicts, ClientQuery Begin,
       ClientQuery InsertReservation, StripeCreate (session_of ada_booking ada_row),
       ClientQuery Commit, Release])"
  by (simp add: handler_defs eval_defs example_defs)

lemma ada_down:
  "post_checkout gw_down db0 june_1_4 =
     ((500, bad ''gateway unavailable''),
      \<lparr>properties = [villa], reservations = [], next_id = 2\<rparr>,
      [Connect, PoolQuery SelectPropertyBySlug, ClientQuery SelectConflicts, ClientQuery Begin,
       ClientQuery InsertReservation, StripeCreate (session_of ada_booking ada_row),
       ClientQuery Rollback, Release])"
  by (simp add: handler_defs eval_defs example_defs)

text \<open>
  The example of the specification: the first booking of the villa answers 201, a second
  one for an overlapping range, made after the first has finished, answers 409.
\<close>

lemma sequential_second_conflicts:
  "map status_of (fst (run gw_ok [0, 0, 0, 1, 1, 1] [Ready june_1_4, Ready june_3_5] db0)) =
     [Some 201, Some 409]"
  by (simp add: handler_defs eval_defs example_defs status_of_def)

text \<open>
  A string that is no date gives \<^verbatim>\<open>NaN\<close>, which no comparison rejects: the quote goes
  through with \<^verbatim>\<open>NaN\<close> nights and a \<^verbatim>\<open>NaN\<close> total.
\<close>

lemma unparsable_dates_pass:
  "toDate ''soon'' = None \<and> toDate ''later'' = None \<and>
   map_option total_cents (quoted (fst (post_quote db1
      \<lparr>property_slug = Some ''hut'', property_id = None, checkin = Some ''soon'',
       checkout = Some ''later'', email = None, guests = None\<rparr>))) = Some NaN"
  by (simp add: handler_defs eval_defs example_defs quoted_def)

section \<open>Validation of the date range\<close>

text \<open>
  When both dates parse and checkout is not after checkin, the answer is 400: the quote
  has sent no statement and the checkout only took and released its client.
\<close>

lemma ordered_dates_rejected:
  assumes "toDate (str (checkin b)) = Some x" and "toDate (str (checkout b)) = Some y"
    and "y \<le> x"
  shows "fst (fst (post_quote d b)) = 400 \<and> (\<exists>m. snd (fst (post_quote d b)) = bad m) \<and>
         snd (post_quote d b) = [] \<and>
         list_all (\<lambda>e. \<not> on_reservations e) (snd (post_quote d b)) \<and>
         fst (fst (post_checkout gw d b)) = 400 \<and> (\<exists>m. snd (fst (post_checkout gw d b)) = bad m) \<and>
         fst (snd (post_checkout gw d b)) = d \<and>
         snd (snd (post_checkout gw d b)) = [Connect, Release] \<and>
         list_all (\<lambda>e. \<not> on_reservations e) (snd (snd (post_checkout gw d b)))"
  using assms
  by (auto simp: post_quote_def post_checkout_def checkout_check_def date_le_def on_reservations_def)

section \<open>Traces and the store\<close>

lemma getProperty_trace:
  "snd (getProperty d i s) = [] \<or> snd (getProperty d i s) = [PoolQuery SelectPropertyById]
   \<or> snd (getProperty d i s) = [PoolQuery SelectPropertyBySlug]"
  by (simp add: getProperty_def)

lemma checkout_check_trace:
  "set (snd (checkout_check d b)) \<subseteq>
     {Connect, Release, PoolQuery SelectPropertyById, PoolQuery SelectPropertyBySlug,
      ClientQuery SelectConflicts, ClientQuery Rollback}"
  using getProperty_trace [of d "property_id b" "property_slug b"]
  by (auto simp: checkout_check_def Let_def split: prod.splits option.splits sum.splits)

lemma checkout_insert_trace:
  "set (snd (snd (checkout_insert d bk))) \<subseteq>
     {ClientQuery Begin, ClientQuery InsertReservation, ClientQuery Rollback, Release}"
  by (auto simp: checkout_insert_def split: option.splits)

lemma checkout_insert_store:
  "reservations (fst (snd (checkout_insert d bk))) = reservations d \<and>
   properties (fst (snd (checkout_insert d bk))) = properties d"
  by (simp add: checkout_insert_def split: option.splits)

lemma availability_depends:
  "properties d' = properties d \<Longrightarrow> reservations d' = reservations d \<Longrightarrow>
   get_availability d' q = get_availability d q"
  by (simp add: get_availability_def getProperty_def split: option.splits)

section \<open>Overlap and the conflict query\<close>

lemma blocks_overlap:
  "blocks pid a b r \<longleftrightarrow>
     res_property_id r = pid \<and> active r \<and> ranges_overlap (res_checkin r) (res_checkout r) a b"
  by (simp add: blocks_def active_def ranges_overlap_def)

lemma ranges_overlap_sym: "ranges_overlap a1 a2 b1 b2 \<longleftrightarrow> ranges_overlap b1 b2 a1 a2"
  by (auto simp: ranges_overlap_def)

lemma conflicts_positive:
  "filter (blocks pid a c) rows \<noteq> [] \<longleftrightarrow>
     (\<exists>r \<in> set rows. res_property_id r = pid \<and> active r \<and>
        ranges_overlap a c (res_checkin r) (res_checkout r))"
proof -
  have "filter (blocks pid a c) rows \<noteq> [] \<longleftrightarrow> (\<exists>r \<in> set rows. blocks pid a c r)"
    by (simp add: filter_empty_conv)
  then show ?thesis
    by (simp add: blocks_overlap ranges_overlap_sym [of a c])
qed

lemma checkout_check_clear:
  assumes "checkout_check d b = (Inr bk, t)"
  shows "\<exists>a c. pgDate (bk_checkin bk) = Some a \<and> pgDate (bk_checkout bk) = Some c \<and>
           filter (blocks (prop_id (bk_prop bk)) a c) (reservations d) = []"
  using assms
  by (auto simp: checkout_check_def select_conflicts_def Let_def
      split: if_splits prod.splits option.splits sum.splits)


section \<open>One attempt at a time\<close>

text \<open>
  An attempt that runs alone through its three parts is the handler. Run one after the
  other, attempts keep the table free of overlapping pending or paid reservations; two
  attempts whose conflict queries both pass before either inserts both answer 201.
\<close>

lemma run_alone:
  "run gw [0, 0, 0] [Ready b] d =
     ([Done (fst (post_checkout gw d b))], fst (snd (post_checkout gw d b)))"
  by (auto simp: post_checkout_def split: prod.splits sum.splits)

lemma double_booked_append:
  "double_booked (rs @ [row]) \<longleftrightarrow> double_booked rs \<or> (\<exists>r \<in> set rs. clash r row)"
  by (induction rs) (auto simp: list_ex_iff)

lemma sequential_keeps_invariant:
  assumes "\<not> double_booked (reservations d)"
  shows "\<not> double_booked (reservations (fst (snd (post_checkout gw d b))))"
proof (cases "checkout_check d b")
  case (Pair r1 t1)
  show ?thesis
  proof (cases r1)
    case (Inl r)
    then show ?thesis using assms Pair by (simp add: post_checkout_def)
  next
    case (Inr bk)
    obtain a c where ac: "pgDate (bk_checkin bk) = Some a" "pgDate (bk_checkout bk) = Some c"
      and clear: "filter (blocks (prop_id (bk_prop bk)) a c) (reservations d) = []"
      using checkout_check_clear Pair Inr by blast
    let ?row = "\<lparr>res_id = next_id d, res_property_id = prop_id (bk_prop bk), res_checkin = a,
        res_checkout = c, res_guests = bk_guests bk, res_email = bk_email bk,
        status = ''pending''\<rparr>"
    have "\<forall>r \<in> set (reservations d). \<not> blocks (prop_id (bk_prop bk)) a c r"
      using clear by (simp add: filter_empty_conv)
    then have "\<forall>r \<in> set (reservations d). \<not> clash r ?row"
      by (auto simp: blocks_def clash_def)
    then have "\<not> double_booked (reservations d @ [?row])"
      using assms by (simp add: double_booked_append)
    then show ?thesis
      using assms Pair Inr ac
      by (simp add: post_checkout_def checkout_insert_def checkout_pay_def split: sum.splits)
  qed
qed

lemma race_both_succeed:
  assumes "fst (checkout_check d b1) = Inr bk1" and "fst (checkout_check d b2) = Inr bk2"
    and "\<And>s. \<exists>u. gw s = Inr u"
  shows "map status_of (fst (run gw [0, 1, 0, 1, 0, 1] [Ready b1, Ready b2] d)) =
           [Some 201, Some 201] \<and>
         length (reservations (snd (run gw [0, 1, 0, 1, 0, 1] [Ready b1, Ready b2] d))) =
           length (reservations d) + 2"
proof -
  obtain t1 t2 where c1: "checkout_check d b1 = (Inr bk1, t1)"
    and c2: "checkout_check d b2 = (Inr bk2, t2)"
    using assms(1,2) by (metis prod.collapse)
  obtain a1 e1 where p1: "pgDate (bk_checkin bk1) = Some a1" "pgDate (bk_checkout bk1) = Some e1"
    using checkout_check_clear [OF c1] by blast
  obtain a2 e2 where p2: "pgDate (bk_checkin bk2) = Some a2" "pgDate (bk_checkout bk2) = Some e2"
    using checkout_check_clear [OF c2] by blast
  let ?r1 = "\<lparr>res_id = next_id d, res_property_id = prop_id (bk_prop bk1), res_checkin = a1,
      res_checkout = e1, res_guests = bk_guests bk1, res_email = bk_email bk1,
      status = ''pending''\<rparr>"
  let ?r2 = "\<lparr>res_id = Suc (next_id d), res_property_id = prop_id (bk_prop bk2), res_checkin = a2,
      res_checkout = e2, res_guests = bk_guests bk2, res_email = bk_email bk2,
      status = ''pending''\<rparr>"
  obtain u1 where u1: "gw (session_of bk1 ?r1) = Inr u1" using assms(3) by blast
  obtain u2 where u2: "gw (session_of bk2 ?r2) = Inr u2" using assms(3) by blast
  show ?thesis
    using assms(1,2) p1 p2 u1 u2
    by (simp add: checkout_insert_def checkout_pay_def status_of_def)
qed

section \<open>Numbers and dates\<close>

text \<open>
  Integers below \<open>2^53\<close> in magnitude are doubles; the time value of a date is a multiple
  of 86400000 below \<open>2^52\<close>, and where the database reads the same string it is the
  day number of the database times 86400000; \<open>ceil_div\<close> is the ceiling of the quotient.
\<close>

lemma bit_length_bound: "a < 2 ^ k \<Longrightarrow> bit_length a \<le> k"
proof (induction k arbitrary: a)
  case 0
  then show ?case by (simp add: bit_length.simps)
next
  case (Suc k)
  show ?case
  proof (cases "a = 0")
    case True
    then show ?thesis by (simp add: bit_length.simps)
  next
    case False
    have "a div 2 < 2 ^ k" using Suc.prems by simp
    then have "bit_length (a div 2) \<le> k" by (rule Suc.IH)
    then show ?thesis using False by (subst bit_length.simps) simp
  qed
qed

lemma round53_exact: "\<bar>n\<bar> < 2 ^ 53 \<Longrightarrow> round53 n = n"
proof -
  assume "\<bar>n\<bar> < 2 ^ 53"
  then have "nat \<bar>n\<bar> < 2 ^ 53" by simp
  then have "bit_length (nat \<bar>n\<bar>) \<le> 53" by (rule bit_length_bound)
  then show ?thesis by (simp add: round53_def Let_def)
qed


lemma toDate_multiple: "toDate s = Some t \<Longrightarrow> \<exists>k. t = 86400000 * k"
  by (auto simp: toDate_def split: option.splits if_splits)

lemma num_field_wider:
  "num_field 2 2 w = Some n \<Longrightarrow> num_field 1 2 w = Some n"
  by (auto simp: num_field_def split: if_splits)

lemma toDate_agrees_pgDate:
  assumes "toDate s = Some t" and "pgDate s = Some k"
  shows "t = 86400000 * k"
proof -
  obtain y m d where j: "js_ymd s = Some (y, m, d)" and t: "t = 86400000 * days_from_civil y m d"
    using assms(1) by (auto simp: toDate_def split: option.splits if_splits)
  obtain y' m' d' where p: "pg_ymd s = Some (y', m', d')" and k: "k = days_from_civil y' m' d'"
    using assms(2) by (auto simp: pgDate_def split: option.splits if_splits)
  have "(y', m', d') = (y, m, d)"
    using j p
    by (auto simp: js_ymd_def pg_ymd_def ymd_of_def num_field_def
        split: list.splits option.splits if_splits)
  then show ?thesis using t k by simp
qed

lemma toDate_nonempty: "toDate s = Some t \<Longrightarrow> s \<noteq> []"
  by (auto simp: toDate_def js_ymd_def ymd_of_def num_field_def)

lemma digits_acc_bound:
  "digits_acc acc cs = Some y \<Longrightarrow> y < (acc + 1) * 10 ^ length cs"
proof (induction cs arbitrary: acc)
  case Nil
  then show ?case by simp
next
  case (Cons c cs)
  then obtain dv where dv: "digit_val c = Some dv" and rest: "digits_acc (10 * acc + dv) cs = Some y"
    by (auto split: option.splits)
  have dv9: "dv \<le> 9" using dv by (auto simp: digit_val_def Let_def split: if_splits)
  have "y < (10 * acc + dv + 1) * 10 ^ length cs" using Cons.IH [OF rest] .
  moreover have "(10 * acc + dv + 1) * 10 ^ length cs \<le> (10 * acc + 10) * 10 ^ length cs"
    using dv9 by (intro mult_right_mono) simp_all
  ultimately have "y < (10 * acc + 10) * 10 ^ length cs" by (rule less_le_trans)
  also have "\<dots> = (acc + 1) * 10 ^ length (c # cs)" by (simp add: algebra_simps)
  finally show ?case .
qed

lemma num_field_bound:
  assumes "num_field lo 4 w = Some y"
  shows "0 \<le> y \<and> y < 10000"
proof -
  from assms obtain n where n: "digits_acc 0 w = Some n" and y: "y = int n" and len: "length w \<le> 4"
    by (auto simp: num_field_def split: if_splits option.splits)
  have "n < (0 + 1) * 10 ^ length w" using digits_acc_bound [OF n] .
  also have "\<dots> = 10 ^ length w" by simp
  also have "(10 :: nat) ^ length w \<le> 10 ^ 4" using len by (intro power_increasing) simp_all
  finally show ?thesis using y by simp
qed

lemma js_ymd_bound:
  assumes "js_ymd s = Some (y, m, d)"
  shows "0 \<le> y \<and> y < 10000"
proof -
  from assms obtain w where "num_field 4 4 w = Some y"
    by (auto simp: js_ymd_def ymd_of_def split: list.splits option.splits)
  then show ?thesis by (rule num_field_bound)
qed

lemma days_from_civil_bound:
  assumes "0 \<le> y" and "y < 10000" and "1 \<le> m" and "m \<le> 12" and "1 \<le> d" and "d \<le> 31"
  shows "\<bar>days_from_civil y m d\<bar> < 4000000"
proof -
  define y' where "y' = (if m \<le> 2 then y - 1 else y)"
  define era where "era = y' div 400"
  define yoe where "yoe = y' - era * 400"
  define k where "k = (if 2 < m then m - 3 else m + 9)"
  define doy where "doy = (153 * k + 2) div 5 + d - 1"
  have y': "-1 \<le> y'" "y' \<le> 9999" using assms by (simp_all add: y'_def)
  have "(-1) div 400 \<le> y' div 400" using y'(1) by (intro zdiv_mono1) simp_all
  moreover have "y' div 400 \<le> 9999 div 400" using y'(2) by (intro zdiv_mono1) simp_all
  ultimately have era: "-1 \<le> era" "era \<le> 24" by (simp_all add: era_def)
  have "yoe = y' mod 400" by (simp add: yoe_def era_def minus_div_mult_eq_mod)
  then have yoe: "0 \<le> yoe" "yoe < 400" by simp_all
  have k: "0 \<le> k" "k \<le> 11" using assms by (simp_all add: k_def)
  have "0 div 5 \<le> (153 * k + 2) div 5" using k(1) by (intro zdiv_mono1) simp_all
  moreover have "(153 * k + 2) div 5 \<le> 1685 div 5" using k(2) by (intro zdiv_mono1) simp_all
  ultimately have doy: "0 \<le> doy" "doy \<le> 367" using assms by (simp_all add: doy_def)
  have "0 div 4 \<le> yoe div 4" using yoe(1) by (intro zdiv_mono1) simp_all
  moreover have "yoe div 4 \<le> 400 div 4" using yoe(2) by (intro zdiv_mono1) simp_all
  ultimately have q4: "0 \<le> yoe div 4" "yoe div 4 \<le> 100" by simp_all
  have "0 div 100 \<le> yoe div 100" using yoe(1) by (intro zdiv_mono1) simp_all
  moreover have "yoe div 100 \<le> 400 div 100" using yoe(2) by (intro zdiv_mono1) simp_all
  ultimately have q100: "0 \<le> yoe div 100" "yoe div 100 \<le> 4" by simp_all
  have "days_from_civil y m d =
      era * 146097 + (yoe * 365 + yoe div 4 - yoe div 100 + doy) - 719468"
    by (simp add: days_from_civil_def Let_def y'_def era_def yoe_def doy_def k_def)
  then show ?thesis using era yoe doy q4 q100 by linarith
qed

lemma toDate_bound: "toDate s = Some t \<Longrightarrow> \<bar>t\<bar> < 2 ^ 52"
proof -
  assume a: "toDate s = Some t"
  then obtain y m d where p: "js_ymd s = Some (y, m, d)"
    and r: "1 \<le> m" "m \<le> 12" "1 \<le> d" "d \<le> 31" and t: "t = 86400000 * days_from_civil y m d"
    by (auto simp: toDate_def split: option.splits if_splits)
  have "\<bar>days_from_civil y m d\<bar> < 4000000"
    using js_ymd_bound [OF p] r by (intro days_from_civil_bound) simp_all
  then show ?thesis using t by simp
qed

lemma ceil_div_ceiling: "0 < d \<Longrightarrow> ceil_div x d = \<lceil>real_of_int x / real_of_int d\<rceil>"
proof -
  have "\<lceil>real_of_int x / real_of_int d\<rceil> = - \<lfloor>real_of_int (- x) / real_of_int d\<rfloor>"
    by (simp add: ceiling_def)
  also have "\<dots> = - ((- x) div d)"
    by (simp only: floor_divide_of_int_eq)
  finally show ?thesis by (simp add: ceil_div_def)
qed


section \<open>The claims\<close>

text \<open>
  C1, as amended. In POST /checkout the conflict query is sent before the transaction is
  started, not inside it: in every run no conflict query follows a \<^verbatim>\<open>BEGIN\<close>; when a
  row is inserted, the conflict query, \<^verbatim>\<open>BEGIN\<close> and the insert are sent in this order,
  one after the other; and when the conflict query finds a row the handler answers 409
  without having opened a transaction, the store unchanged.
\<close>

theorem conflict_check_before_begin:
  "checks_before_tx (snd (snd (post_checkout gw d b))) \<and>
   (ClientQuery InsertReservation \<in> set (snd (snd (post_checkout gw d b))) \<longrightarrow>
      (\<exists>pre post. snd (snd (post_checkout gw d b)) =
         pre @ [ClientQuery SelectConflicts, ClientQuery Begin, ClientQuery InsertReservation] @ post)) \<and>
   (\<forall>prop t n. \<not> falsy (email b) \<and> \<not> falsy (checkin b) \<and> \<not> falsy (checkout b) \<and>
      \<not> date_le (toDate (str (checkout b))) (toDate (str (checkin b))) \<and>
      getProperty d (property_id b) (property_slug b) = (Some prop, t) \<and>
      select_conflicts (reservations d) (prop_id prop) (str (checkin b)) (str (checkout b)) = Inr n \<and>
      0 < n \<longrightarrow>
      post_checkout gw d b =
        ((409, bad ''date non disponibili''), d, Connect # t @ [ClientQuery SelectConflicts, Release]))"
proof -
  let ?t = "snd (getProperty d (property_id b) (property_slug b))"
  have shape: "snd (snd (post_checkout gw d b)) = [Connect, Release] \<or>
      snd (snd (post_checkout gw d b)) = Connect # ?t @ [Release] \<or>
      snd (snd (post_checkout gw d b)) =
        Connect # ?t @ [ClientQuery SelectConflicts, ClientQuery Rollback, Release] \<or>
      snd (snd (post_checkout gw d b)) = Connect # ?t @ [ClientQuery SelectConflicts, Release] \<or>
      (\<exists>post. snd (snd (post_checkout gw d b)) =
        Connect # ?t @ [ClientQuery SelectConflicts, ClientQuery Begin, ClientQuery InsertReservation] @ post
        \<and> ClientQuery SelectConflicts \<notin> set post)"
    by (auto simp: handler_defs Let_def split: prod.splits option.splits sum.splits)
  have a: "checks_before_tx (snd (snd (post_checkout gw d b)))"
    using shape getProperty_trace [of d "property_id b" "property_slug b"] by auto
  have b: "ClientQuery InsertReservation \<in> set (snd (snd (post_checkout gw d b))) \<longrightarrow>
      (\<exists>pre post. snd (snd (post_checkout gw d b)) =
         pre @ [ClientQuery SelectConflicts, ClientQuery Begin, ClientQuery InsertReservation] @ post)"
  proof
    assume ins: "ClientQuery InsertReservation \<in> set (snd (snd (post_checkout gw d b)))"
    then obtain post where "snd (snd (post_checkout gw d b)) =
        Connect # ?t @ [ClientQuery SelectConflicts, ClientQuery Begin, ClientQuery InsertReservation] @ post"
      using shape getProperty_trace [of d "property_id b" "property_slug b"] by auto
    then have "snd (snd (post_checkout gw d b)) =
        (Connect # ?t) @ [ClientQuery SelectConflicts, ClientQuery Begin, ClientQuery InsertReservation] @ post"
      by simp
    then show "\<exists>pre post. snd (snd (post_checkout gw d b)) =
         pre @ [ClientQuery SelectConflicts, ClientQuery Begin, ClientQuery InsertReservation] @ post"
      by blast
  qed
  have c: "\<forall>prop t n. \<not> falsy (email b) \<and> \<not> falsy (checkin b) \<and> \<not> falsy (checkout b) \<and>
      \<not> date_le (toDate (str (checkout b))) (toDate (str (checkin b))) \<and>
      getProperty d (property_id b) (property_slug b) = (Some prop, t) \<and>
      select_conflicts (reservations d) (prop_id prop) (str (checkin b)) (str (checkout b)) = Inr n \<and>
      0 < n \<longrightarrow>
      post_checkout gw d b =
        ((409, bad ''date non disponibili''), d, Connect # t @ [ClientQuery SelectConflicts, Release])"
    by (simp add: post_checkout_def checkout_check_def)
  show ?thesis using a b c by blast
qed

theorem conflict_check_before_begin_witness:
  "\<not> falsy (email june_3_5) \<and> \<not> falsy (checkin june_3_5) \<and> \<not> falsy (checkout june_3_5) \<and>
   \<not> date_le (toDate (str (checkout june_3_5))) (toDate (str (checkin june_3_5))) \<and>
   getProperty db1 (property_id june_3_5) (property_slug june_3_5) =
     (Some villa, [PoolQuery SelectPropertyBySlug]) \<and>
   select_conflicts (reservations db1) (prop_id villa) (str (checkin june_3_5))
     (str (checkout june_3_5)) = Inr 1 \<and>
   post_checkout gw_ok db1 june_3_5 =
     ((409, bad ''date non disponibili''), db1,
      [Connect, PoolQuery SelectPropertyBySlug, ClientQuery SelectConflicts, Release]) \<and>
   checks_before_tx (snd (snd (post_checkout gw_ok db0 june_1_4))) \<and>
   ClientQuery InsertReservation \<in> set (snd (snd (post_checkout gw_ok db0 june_1_4)))"
  using conflict_check_before_begin [of gw_ok db1 june_3_5]
    conflict_check_before_begin [of gw_ok db0 june_1_4]
  by (simp add: ada_trace) (simp add: eval_defs example_defs)

text \<open>
  The reading of C1 as stated (every conflict query is sent inside an open transaction)
  fails on the booking of the villa from 2024-06-01 to 2024-06-04.
\<close>

theorem conflict_check_in_tx_counterexample:
  "\<not> checks_in_tx False (snd (snd (post_checkout gw_ok db0 june_1_4)))"
  by (simp add: ada_trace)

text \<open>
  C2. Whenever the handler of POST /checkout reaches the payment call and the call fails,
  the answer is 500 with the message of the failure, the transaction is rolled back and
  never committed, the reservations and the properties are what they were before the
  attempt, and every availability query gets the answer it got before.
\<close>

theorem payment_failure_rolls_back:
  assumes "StripeCreate s \<in> set (snd (snd (post_checkout gw d b)))" and "gw s = Inl msg"
  shows "fst (post_checkout gw d b) = (500, bad msg) \<and>
         reservations (fst (snd (post_checkout gw d b))) = reservations d \<and>
         properties (fst (snd (post_checkout gw d b))) = properties d \<and>
         ClientQuery Rollback \<in> set (snd (snd (post_checkout gw d b))) \<and>
         ClientQuery Commit \<notin> set (snd (snd (post_checkout gw d b))) \<and>
         (\<forall>q. get_availability (fst (snd (post_checkout gw d b))) q = get_availability d q)"
proof -
  have no1: "StripeCreate s \<notin> set (snd (checkout_check d b))"
    using checkout_check_trace [of d b] by auto
  have no1c: "ClientQuery Commit \<notin> set (snd (checkout_check d b))"
    using checkout_check_trace [of d b] by auto
  have no2: "StripeCreate s \<notin> set (snd (snd (checkout_insert d bk)))" for bk
    using checkout_insert_trace [of d bk] by auto
  have no2c: "ClientQuery Commit \<notin> set (snd (snd (checkout_insert d bk)))" for bk
    using checkout_insert_trace [of d bk] by auto
  have main: "fst (post_checkout gw d b) = (500, bad msg) \<and>
         reservations (fst (snd (post_checkout gw d b))) = reservations d \<and>
         properties (fst (snd (post_checkout gw d b))) = properties d \<and>
         ClientQuery Rollback \<in> set (snd (snd (post_checkout gw d b))) \<and>
         ClientQuery Commit \<notin> set (snd (snd (post_checkout gw d b)))"
  proof (cases "checkout_check d b")
    case (Pair r1 t1)
    show ?thesis
    proof (cases r1)
      case (Inl r)
      then show ?thesis using assms(1) Pair no1 by (simp add: post_checkout_def)
    next
      case (Inr bk)
      show ?thesis
      proof (cases "checkout_insert d bk")
        case (fields r2 d1 t2)
        show ?thesis
        proof (cases r2)
          case (Inl r)
          then show ?thesis
            using assms(1) Pair Inr fields no1 no2 [of bk] by (simp add: post_checkout_def)
        next
          case row: (Inr row)
          have st: "reservations d1 = reservations d \<and> properties d1 = properties d"
            using checkout_insert_store [of d bk] fields by simp
          have s: "s = session_of bk row"
            using assms(1) Pair Inr fields row no1 no2 [of bk]
            by (auto simp: post_checkout_def checkout_pay_def split: sum.splits)
          show ?thesis
            using assms(2) s st Pair Inr fields row no1c no2c [of bk]
            by (simp add: post_checkout_def checkout_pay_def)
        qed
      qed
    qed
  qed
  then show ?thesis
    using availability_depends [of "fst (snd (post_checkout gw d b))" d] by simp
qed

theorem payment_failure_rolls_back_witness:
  "StripeCreate (session_of ada_booking ada_row)
     \<in> set (snd (snd (post_checkout gw_down db0 june_1_4))) \<and>
   gw_down (session_of ada_booking ada_row) = Inl ''gateway unavailable'' \<and>
   fst (post_checkout gw_down db0 june_1_4) = (500, bad ''gateway unavailable'') \<and>
   reservations (fst (snd (post_checkout gw_down db0 june_1_4))) = [] \<and>
   get_availability (fst (snd (post_checkout gw_down db0 june_1_4))) june_query =
     get_availability db0 june_query"
proof -
  have a: "StripeCreate (session_of ada_booking ada_row)
      \<in> set (snd (snd (post_checkout gw_down db0 june_1_4)))"
    by (simp add: ada_down)
  have b: "gw_down (session_of ada_booking ada_row) = Inl ''gateway unavailable''"
    by (simp add: gw_down_def)
  have c: "reservations db0 = []"
    by (simp add: db0_def)
  show ?thesis
    using payment_failure_rolls_back [OF a b] a b c by simp
qed

text \<open>
  C3. For a checkout request that passes validation and names an existing property, with
  dates the database reads as the range \<open>[a, c)\<close>: if a pending or paid reservation of
  that property overlaps \<open>[a, c)\<close> (in the sense of the specification), the answer is 409,
  the store is unchanged and no insert is sent; if none does, the conflict check passes
  (the answer is not 409 and the insert is sent).
\<close>

theorem overlapping_request_conflicts:
  assumes "\<not> falsy (email b)" and "\<not> falsy (checkin b)" and "\<not> falsy (checkout b)"
    and "\<not> date_le (toDate (str (checkout b))) (toDate (str (checkin b)))"
    and "fst (getProperty d (property_id b) (property_slug b)) = Some prop"
    and "pgDate (str (checkin b)) = Some a" and "pgDate (str (checkout b)) = Some c"
  shows "((\<exists>r \<in> set (reservations d). res_property_id r = prop_id prop \<and> active r \<and>
             ranges_overlap a c (res_checkin r) (res_checkout r)) \<longrightarrow>
          fst (post_checkout gw d b) = (409, bad ''date non disponibili'') \<and>
          fst (snd (post_checkout gw d b)) = d \<and>
          ClientQuery InsertReservation \<notin> set (snd (snd (post_checkout gw d b)))) \<and>
         (\<not> (\<exists>r \<in> set (reservations d). res_property_id r = prop_id prop \<and> active r \<and>
             ranges_overlap a c (res_checkin r) (res_checkout r)) \<longrightarrow>
          (\<exists>bk. fst (checkout_check d b) = Inr bk) \<and>
          fst (fst (post_checkout gw d b)) \<noteq> 409 \<and>
          ClientQuery InsertReservation \<in> set (snd (snd (post_checkout gw d b))))"
proof -
  obtain t where gp: "getProperty d (property_id b) (property_slug b) = (Some prop, t)"
    using assms(5) by (cases "getProperty d (property_id b) (property_slug b)") simp
  have t: "ClientQuery InsertReservation \<notin> set t"
    using getProperty_trace [of d "property_id b" "property_slug b"] gp by auto
  let ?n = "length (filter (blocks (prop_id prop) a c) (reservations d))"
  have sel: "select_conflicts (reservations d) (prop_id prop) (str (checkin b)) (str (checkout b))
      = Inr ?n"
    using assms(6,7) by (simp add: select_conflicts_def)
  show ?thesis
  proof (cases "0 < ?n")
    case True
    then have "checkout_check d b =
        (Inl (409, bad ''date non disponibili''), Connect # t @ [ClientQuery SelectConflicts, Release])"
      using assms(1-4) gp sel by (simp add: checkout_check_def)
    then show ?thesis
      using True t by (simp add: post_checkout_def conflicts_positive)
  next
    case False
    then obtain bk where bk: "checkout_check d b = (Inr bk, Connect # t @ [ClientQuery SelectConflicts])"
      and dates: "bk_checkin bk = str (checkin b)" "bk_checkout bk = str (checkout b)"
      using assms(1-4) gp sel by (simp add: checkout_check_def Let_def)
    then show ?thesis
      using False assms(6,7)
      by (auto simp: post_checkout_def checkout_insert_def checkout_pay_def conflicts_positive
          split: sum.splits)
  qed
qed

theorem overlapping_request_conflicts_witness:
  "\<not> falsy (email june_3_5) \<and> \<not> falsy (checkin june_3_5) \<and> \<not> falsy (checkout june_3_5) \<and>
   \<not> date_le (toDate (str (checkout june_3_5))) (toDate (str (checkin june_3_5))) \<and>
   fst (getProperty db1 (property_id june_3_5) (property_slug june_3_5)) = Some villa \<and>
   pgDate (str (checkin june_3_5)) = Some 19877 \<and>
   pgDate (str (checkout june_3_5)) = Some 19879 \<and>
   booked \<in> set (reservations db1) \<and> res_property_id booked = prop_id villa \<and> active booked \<and>
   ranges_overlap 19877 19879 (res_checkin booked) (res_checkout booked) \<and>
   fst (post_checkout gw_ok db1 june_3_5) = (409, bad ''date non disponibili'') \<and>
   fst (snd (post_checkout gw_ok db1 june_3_5)) = db1 \<and>
   fst (fst (post_checkout gw_ok db0 june_3_5)) = 201"
  using overlapping_request_conflicts [of june_3_5 db1 villa 19877 19879 gw_ok]
    overlapping_request_conflicts [of june_3_5 db0 villa 19877 19879 gw_ok]
  by (simp add: handler_defs eval_defs example_defs active_def ranges_overlap_def)

text \<open>
  C4. Two attempts for overlapping ranges of one property, interleaved so that both
  conflict queries run before either insert is committed: both answer 201, and the table
  then holds two pending reservations with overlapping ranges, starting from a table
  without any. The claim asks for one 201 and one 409.
\<close>

theorem concurrent_double_booking:
  "run gw_ok [0, 1, 0, 1, 0, 1] [Ready june_1_4, Ready june_3_5] db0 =
     ([Done (201, CheckoutOk \<lparr>reservation_id = 1, checkout_url = ''https://pay.example/s'',
                               amount_cents = Num 30000, created_currency = ''EUR''\<rparr>),
       Done (201, CheckoutOk \<lparr>reservation_id = 2, checkout_url = ''https://pay.example/s'',
                               amount_cents = Num 20000, created_currency = ''EUR''\<rparr>)],
      \<lparr>properties = [villa], reservations = [ada_row, bob_row], next_id = 3\<rparr>) \<and>
   double_booked [ada_row, bob_row] \<and>
   \<not> double_booked (reservations db0)"
  by (simp add: handler_defs eval_defs example_defs clash_def)

text \<open>
  C5, as amended. For dates with checkout after checkin, the nights are a positive
  integer, the ceiling of the milliseconds between the two dates over 86400000, which is
  the exact number of days between them (the difference of the day numbers the database
  reads; the milliseconds are below \<open>2^53\<close>, so the subtraction and the division of the
  source are exact); the total of a quote is nights times the nightly price whenever the price and
  the product are below \<open>2^53\<close> in magnitude, the range on which the doubles of the
  source are exact. The villa at 10000 cents from 2024-06-01 to 2024-06-04 gives 3
  nights, 30000 cents and the text 300.00 EUR.
\<close>

theorem nights_and_total:
  assumes "toDate ci = Some ta" and "toDate co = Some tb" and "ta < tb"
  shows "\<exists>n. nightsBetween ci co = Num n \<and> 0 < n \<and>
           n = \<lceil>real_of_int (tb - ta) / 86400000\<rceil> \<and> n * 86400000 = tb - ta \<and>
           \<bar>tb - ta\<bar> < 2 ^ 53 \<and>
           (\<forall>a c. pgDate ci = Some a \<and> pgDate co = Some c \<longrightarrow> n = c - a) \<and>
           (\<forall>d b prop p. checkin b = Some ci \<and> checkout b = Some co \<and>
              fst (getProperty d (property_id b) (property_slug b)) = Some prop \<and>
              price_per_night_cents prop = Some p \<and> \<bar>p\<bar> < 2 ^ 53 \<and> \<bar>n * p\<bar> < 2 ^ 53 \<longrightarrow>
              (\<exists>q. fst (post_quote d b) = (200, QuoteOk q) \<and> quote_nights q = Num n \<and>
                 total_cents q = Num (n * p))) \<and>
           fst (post_quote db0 june_1_4) =
             (200, QuoteOk \<lparr>quote_property = view_of villa, quote_checkin = ''2024-06-01'',
                quote_checkout = ''2024-06-04'', quote_nights = Num 3, quote_currency = ''EUR'',
                quote_price_per_night_cents = Num 10000, total_cents = Num 30000,
                total_formatted = ''300.00 EUR''\<rparr>)"
proof -
  obtain ka kb where ka: "ta = 86400000 * ka" and kb: "tb = 86400000 * kb"
    using assms(1,2) toDate_multiple by blast
  let ?n = "kb - ka"
  have diff: "tb - ta = 86400000 * ?n" using ka kb by (simp add: algebra_simps)
  have cd: "ceil_div (tb - ta) 86400000 = ?n"
    by (simp add: ceil_div_def diff)
  have n1: "nightsBetween ci co = Num ?n"
    using assms(1,2) cd by (simp add: nightsBetween_def)
  have n2: "0 < ?n" using assms(3) ka kb by simp
  have n3: "?n = \<lceil>real_of_int (tb - ta) / 86400000\<rceil>"
    using ceil_div_ceiling [of 86400000 "tb - ta"] cd by simp
  have n4: "?n * 86400000 = tb - ta" using diff by simp
  have n4': "\<bar>tb - ta\<bar> < 2 ^ 53"
    using toDate_bound [OF assms(1)] toDate_bound [OF assms(2)] by simp
  have n5: "\<forall>a c. pgDate ci = Some a \<and> pgDate co = Some c \<longrightarrow> ?n = c - a"
  proof (intro allI impI)
    fix a c assume "pgDate ci = Some a \<and> pgDate co = Some c"
    then have "ta = 86400000 * a" "tb = 86400000 * c"
      using assms(1,2) by (simp_all add: toDate_agrees_pgDate)
    then show "?n = c - a" using ka kb by simp
  qed
  have n6: "\<forall>d b prop p. checkin b = Some ci \<and> checkout b = Some co \<and>
              fst (getProperty d (property_id b) (property_slug b)) = Some prop \<and>
              price_per_night_cents prop = Some p \<and> \<bar>p\<bar> < 2 ^ 53 \<and> \<bar>?n * p\<bar> < 2 ^ 53 \<longrightarrow>
              (\<exists>q. fst (post_quote d b) = (200, QuoteOk q) \<and> quote_nights q = Num ?n \<and>
                 total_cents q = Num (?n * p))"
  proof (intro allI impI)
    fix d :: db and b :: body and pr :: property and p :: int
    assume h: "checkin b = Some ci \<and> checkout b = Some co \<and>
              fst (getProperty d (property_id b) (property_slug b)) = Some pr \<and>
              price_per_night_cents pr = Some p \<and> \<bar>p\<bar> < 2 ^ 53 \<and> \<bar>?n * p\<bar> < 2 ^ 53"
    then obtain t where gp: "getProperty d (property_id b) (property_slug b) = (Some pr, t)"
      by (cases "getProperty d (property_id b) (property_slug b)") simp
    have "\<not> date_le (toDate co) (toDate ci)"
      using assms by (simp add: date_le_def)
    then show "\<exists>q. fst (post_quote d b) = (200, QuoteOk q) \<and> quote_nights q = Num ?n \<and>
                 total_cents q = Num (?n * p)"
      using h gp n1 assms(1,2) toDate_nonempty [of ci] toDate_nonempty [of co]
      by (simp add: post_quote_def falsy_def str_def Let_def Number_or_0_def round53_exact)
  qed
  have n7: "fst (post_quote db0 june_1_4) =
             (200, QuoteOk \<lparr>quote_property = view_of villa, quote_checkin = ''2024-06-01'',
                quote_checkout = ''2024-06-04'', quote_nights = Num 3, quote_currency = ''EUR'',
                quote_price_per_night_cents = Num 10000, total_cents = Num 30000,
                total_formatted = ''300.00 EUR''\<rparr>)"
    by (simp add: handler_defs eval_defs example_defs)
  show ?thesis using n1 n2 n3 n4 n4' n5 n6 n7 by blast
qed

theorem nights_and_total_witness:
  "toDate ''2024-06-01'' = Some 1717200000000 \<and> toDate ''2024-06-04'' = Some 1717459200000 \<and>
   (1717200000000 :: int) < 1717459200000 \<and>
   nightsBetween ''2024-06-01'' ''2024-06-04'' = Num 3 \<and>
   pgDate ''2024-06-01'' = Some 19875 \<and> pgDate ''2024-06-04'' = Some 19878"
  using nights_and_total [of "''2024-06-01''" 1717200000000 "''2024-06-04''" 1717459200000]
  by (simp add: eval_defs)

text \<open>
  The reading of C5 as stated (the total is nights times the nightly price for every
  price) fails for one night at 9007199254740993 cents: the total is 9007199254740992.
\<close>

theorem total_exact_counterexample:
  "nightsBetween ''2024-06-01'' ''2024-06-02'' = Num 1 \<and>
   price_per_night_cents costly = Some 9007199254740993 \<and>
   map_option total_cents (quoted (fst (post_quote db_costly one_night))) =
     Some (Num 9007199254740992) \<and>
   Num 9007199254740992 \<noteq> Num (1 * 9007199254740993)"
  by (simp add: handler_defs eval_defs example_defs quoted_def)

text \<open>
  C6. A request whose checkin and checkout are equal is not always answered 400: the
  handlers compare the two time values with \<^verbatim>\<open><=\<close>, which is false when a date does
  not parse. With both dates the string soon, the quote answers 200 and the checkout
  sends the conflict query before it answers 500. With both dates written 2024-6-5,
  which the database reads and JavaScript does not, the quote answers 200, and the
  checkout sends the conflict query and the insert: a reservation of no night, rolled
  back when the gateway fails and committed when it returns a session. The claim asks
  for 400 before the conflict query and before any statement on the reservations table.
\<close>

theorem equal_unparsed_dates_not_rejected:
  "checkin soon_stay = checkout soon_stay \<and>
   fst (fst (post_quote db0 soon_stay)) = 200 \<and>
   fst (fst (post_checkout gw_ok db0 soon_stay)) = 500 \<and>
   ClientQuery SelectConflicts \<in> set (snd (snd (post_checkout gw_ok db0 soon_stay))) \<and>
   checkin unpadded_day = checkout unpadded_day \<and>
   fst (fst (post_quote db0 unpadded_day)) = 200 \<and>
   fst (fst (post_checkout gw_down db0 unpadded_day)) = 500 \<and>
   ClientQuery SelectConflicts \<in> set (snd (snd (post_checkout gw_down db0 unpadded_day))) \<and>
   ClientQuery InsertReservation \<in> set (snd (snd (post_checkout gw_down db0 unpadded_day))) \<and>
   fst (fst (post_checkout gw_ok db0 unpadded_day)) = 201 \<and>
   map res_checkin (reservations (fst (snd (post_checkout gw_ok db0 unpadded_day)))) = [19879] \<and>
   map res_checkout (reservations (fst (snd (post_checkout gw_ok db0 unpadded_day)))) = [19879]"
  by (simp add: handler_defs eval_defs example_defs)


text \<open>
  C8. \<open>getProperty\<close> ignores the slug when the id is given; it returns a property with
  the given id (or, the id missing, with the given slug) when the table has one; it
  returns nothing when both keys are missing or no row has the key it looks up; the only
  statement it sends is a select; and on nothing returned each of the three handlers
  answers 404 to a request that passed its validation.
\<close>

theorem getProperty_lookup:
  "(\<not> falsy i \<longrightarrow> getProperty d i s = getProperty d i None) \<and>
   (\<not> falsy i \<and> (\<exists>p \<in> set (properties d). prop_id p = str i) \<longrightarrow>
      (\<exists>p. fst (getProperty d i s) = Some p \<and> p \<in> set (properties d) \<and> prop_id p = str i)) \<and>
   (falsy i \<and> \<not> falsy s \<and> (\<exists>p \<in> set (properties d). slug p = str s) \<longrightarrow>
      (\<exists>p. fst (getProperty d i s) = Some p \<and> p \<in> set (properties d) \<and> slug p = str s)) \<and>
   (falsy i \<and> falsy s \<longrightarrow> getProperty d i s = (None, [])) \<and>
   (\<not> falsy i \<and> (\<forall>p \<in> set (properties d). prop_id p \<noteq> str i) \<longrightarrow>
      fst (getProperty d i s) = None) \<and>
   (falsy i \<and> (\<forall>p \<in> set (properties d). slug p \<noteq> str s) \<longrightarrow>
      fst (getProperty d i s) = None) \<and>
   (\<forall>e \<in> set (snd (getProperty d i s)). is_select e) \<and>
   (\<forall>q. fst (getProperty d (query_property_id q) (query_property_slug q)) = None \<and>
      \<not> falsy (query_from q) \<and> \<not> falsy (query_to q) \<longrightarrow>
      fst (get_availability d q) = (404, bad ''property non trovata'')) \<and>
   (\<forall>b gw. fst (getProperty d (property_id b) (property_slug b)) = None \<and>
      \<not> falsy (checkin b) \<and> \<not> falsy (checkout b) \<and>
      \<not> date_le (toDate (str (checkout b))) (toDate (str (checkin b))) \<longrightarrow>
      fst (post_quote d b) = (404, bad ''property non trovata'') \<and>
      (\<not> falsy (email b) \<longrightarrow>
         fst (post_checkout gw d b) = (404, bad ''property non trovata'')))"
proof -
  have byid: "\<exists>p. find (\<lambda>p. prop_id p = k) ps = Some p \<and> p \<in> set ps \<and> prop_id p = k"
    if "\<exists>p \<in> set ps. prop_id p = k" for k and ps :: "property list"
    using that by (induction ps) auto
  have byslug: "\<exists>p. find (\<lambda>p. slug p = k) ps = Some p \<and> p \<in> set ps \<and> slug p = k"
    if "\<exists>p \<in> set ps. slug p = k" for k and ps :: "property list"
    using that by (induction ps) auto
  have noid: "find (\<lambda>p. prop_id p = k) ps = None"
    if "\<forall>p \<in> set ps. prop_id p \<noteq> k" for k and ps :: "property list"
    using that by (simp add: find_None_iff)
  have noslug: "find (\<lambda>p. slug p = k) ps = None"
    if "\<forall>p \<in> set ps. slug p \<noteq> k" for k and ps :: "property list"
    using that by (simp add: find_None_iff)
  have lookup: "(\<not> falsy i \<longrightarrow> getProperty d i s = getProperty d i None) \<and>
   (\<not> falsy i \<and> (\<exists>p \<in> set (properties d). prop_id p = str i) \<longrightarrow>
      (\<exists>p. fst (getProperty d i s) = Some p \<and> p \<in> set (properties d) \<and> prop_id p = str i)) \<and>
   (falsy i \<and> \<not> falsy s \<and> (\<exists>p \<in> set (properties d). slug p = str s) \<longrightarrow>
      (\<exists>p. fst (getProperty d i s) = Some p \<and> p \<in> set (properties d) \<and> slug p = str s)) \<and>
   (falsy i \<and> falsy s \<longrightarrow> getProperty d i s = (None, [])) \<and>
   (\<not> falsy i \<and> (\<forall>p \<in> set (properties d). prop_id p \<noteq> str i) \<longrightarrow>
      fst (getProperty d i s) = None) \<and>
   (falsy i \<and> (\<forall>p \<in> set (properties d). slug p \<noteq> str s) \<longrightarrow>
      fst (getProperty d i s) = None) \<and>
   (\<forall>e \<in> set (snd (getProperty d i s)). is_select e)"
    using byid [of "properties d" "str i"] byslug [of "properties d" "str s"]
      noid [of "properties d" "str i"] noslug [of "properties d" "str s"]
    by (auto simp: getProperty_def is_select_def falsy_def)
  have av: "fst (get_availability d q) = (404, bad ''property non trovata'')"
    if "fst (getProperty d (query_property_id q) (query_property_slug q)) = None"
      and "\<not> falsy (query_from q)" and "\<not> falsy (query_to q)" for q
    using that
    by (cases "getProperty d (query_property_id q) (query_property_slug q)")
      (simp add: get_availability_def)
  have qu: "fst (post_quote d b) = (404, bad ''property non trovata'') \<and>
      (\<not> falsy (email b) \<longrightarrow> fst (post_checkout gw d b) = (404, bad ''property non trovata''))"
    if "fst (getProperty d (property_id b) (property_slug b)) = None"
      and "\<not> falsy (checkin b)" and "\<not> falsy (checkout b)"
      and "\<not> date_le (toDate (str (checkout b))) (toDate (str (checkin b)))" for b gw
    using that
    by (cases "getProperty d (property_id b) (property_slug b)")
      (simp add: post_quote_def post_checkout_def checkout_check_def)
  show ?thesis
    using lookup av qu by blast
qed

theorem getProperty_lookup_witness:
  "\<not> falsy (Some ''p3'') \<and> free_stay \<in> set (properties db1) \<and>
   prop_id free_stay = str (Some ''p3'') \<and>
   getProperty db1 (Some ''p3'') (Some ''villa-x'') = (Some free_stay, [PoolQuery SelectPropertyById]) \<and>
   getProperty db1 (Some ''p3'') (Some ''villa-x'') = getProperty db1 (Some ''p3'') None \<and>
   fst (getProperty db1 (property_id same_day) (property_slug same_day)) = None \<and>
   \<not> falsy (checkin june_3_5) \<and> \<not> falsy (checkout june_3_5) \<and>
   fst (getProperty db_costly (property_id june_3_5) (property_slug june_3_5)) = None \<and>
   fst (post_quote db_costly june_3_5) = (404, bad ''property non trovata'')"
proof -
  have a: "\<not> falsy (Some ''p3'') \<and> free_stay \<in> set (properties db1) \<and>
      prop_id free_stay = str (Some ''p3'') \<and>
      getProperty db1 (Some ''p3'') (Some ''villa-x'') =
        (Some free_stay, [PoolQuery SelectPropertyById]) \<and>
      fst (getProperty db1 (property_id same_day) (property_slug same_day)) = None"
    by (simp add: getProperty_def falsy_def str_def db1_def villa_def free_stay_def same_day_def)
  have b: "\<not> falsy (checkin june_3_5) \<and> \<not> falsy (checkout june_3_5) \<and>
      \<not> date_le (toDate (str (checkout june_3_5))) (toDate (str (checkin june_3_5))) \<and>
      fst (getProperty db_costly (property_id june_3_5) (property_slug june_3_5)) = None"
    by (simp add: eval_defs june_3_5_def db_costly_def costly_def)
  show ?thesis
    using getProperty_lookup [of "Some ''p3''" db1 "Some ''villa-x''"]
      getProperty_lookup [of None db_costly None] a b
    by metis
qed





end
